theory Spec2Isabelle
  imports Complex_Main
begin

section \<open>Exceptions, messages and the environment of a request\<close>

text \<open>
  The endpoints are Python coroutines that talk to a hosted store through the
  \<open>SupabaseQueries\<close> gateway (\<open>app/db/supabase.py\<close>) and signal every failure by raising.
  An exception is a value here; a computation that may raise returns \<open>exn + 'a\<close>, with
  \<open>Inl\<close> the raised exception.  A message built by an f-string is kept as the list of its
  pieces, so that an interpolated number or exception text stays visible in the message
  without modelling how Python prints a float.
\<close>

datatype piece = S string | N rat | I int

type_synonym msg = "piece list"

datatype exn =
    HTTPException nat msg
  | Exception msg
  | TypeError msg
  | AttributeError msg
  | ValueError msg
  | JWTError msg

text \<open>\<open>str(e)\<close>; for Starlette's \<open>HTTPException\<close> it is \<open>"{status_code}: {detail}"\<close>.\<close>

fun str_exn :: "exn \<Rightarrow> msg" where
  "str_exn (HTTPException code detail) = I (int code) # S '': '' # detail"
| "str_exn (Exception m) = m"
| "str_exn (TypeError m) = m"
| "str_exn (AttributeError m) = m"
| "str_exn (ValueError m) = m"
| "str_exn (JWTError m) = m"

text \<open>
  What a request cannot decide for itself: whether a call of the store client raises
  (\<open>fails\<close> gives, for a kind of call and a table, the text of the client's exception,
  the same for every such call during the request), the clock, the identifiers the store
  assigns to the rows inserted during the request, and the salted hash that \<open>passlib\<close>
  computes for a password.
\<close>

datatype store_op = Select | Insert | Update | Delete

record env =
  fails :: "store_op \<Rightarrow> string \<Rightarrow> string option"
  now :: int
  gen_id :: "nat \<Rightarrow> string"
  hash_password :: "string \<Rightarrow> string"

text \<open>\<open>self.client.table(table)...execute()\<close>: the store client answers or raises.\<close>

definition execute :: "env \<Rightarrow> store_op \<Rightarrow> string \<Rightarrow> 'a \<Rightarrow> exn + 'a" where
  "execute env op table response =
     (case fails env op table of
        Some e \<Rightarrow> Inl (Exception [S e])
      | None \<Rightarrow> Inr response)"

section \<open>The data access gateway\<close>

text \<open>
  A table is the list of its rows.  A column is the selector of the row record, an
  equality filter \<open>{"column": value}\<close> is \<open>eq column value\<close>.  Every method of the gateway
  catches what the client raises and raises \<open>Exception("Failed to ... {table}: {e}")\<close>.
\<close>

definition eq :: "('r \<Rightarrow> 'v) \<Rightarrow> 'v \<Rightarrow> 'r \<Rightarrow> bool" where
  "eq column v r = (column r = v)"

definition matches :: "('r \<Rightarrow> bool) list \<Rightarrow> 'r \<Rightarrow> bool" where
  "matches filters r = list_all (\<lambda>f. f r) filters"

definition first_row :: "'r list \<Rightarrow> 'r option" where
  "first_row data = (case data of [] \<Rightarrow> None | r # _ \<Rightarrow> Some r)"

definition no_order :: "'r list \<Rightarrow> 'r list" where
  "no_order rows = rows"

definition order_by :: "('r \<Rightarrow> 'o::linorder) \<Rightarrow> bool \<Rightarrow> 'r list \<Rightarrow> 'r list" where
  "order_by column ascending rows =
     (if ascending then sort_key column rows else rev (sort_key column rows))"

definition select_by_id ::
  "env \<Rightarrow> string \<Rightarrow> 'r list \<Rightarrow> ('r \<Rightarrow> 'k) \<Rightarrow> 'k \<Rightarrow> exn + 'r option" where
  "select_by_id env table rows id_column id_value =
     (case execute env Select table (filter (eq id_column id_value) rows) of
        Inl e \<Rightarrow> Inl (Exception ([S ''Failed to select from '', S table, S '': ''] @ str_exn e))
      | Inr data \<Rightarrow> Inr (first_row data))"

definition select_one ::
  "env \<Rightarrow> string \<Rightarrow> 'r list \<Rightarrow> ('r \<Rightarrow> bool) list \<Rightarrow> exn + 'r option" where
  "select_one env table rows filters =
     (case execute env Select table (take 1 (filter (matches filters) rows)) of
        Inl e \<Rightarrow> Inl (Exception ([S ''Failed to select from '', S table, S '': ''] @ str_exn e))
      | Inr data \<Rightarrow> Inr (first_row data))"

definition select_all ::
  "env \<Rightarrow> string \<Rightarrow> 'r list \<Rightarrow> ('r \<Rightarrow> bool) list \<Rightarrow> ('r list \<Rightarrow> 'r list) \<Rightarrow> exn + 'r list" where
  "select_all env table rows filters sorting =
     (case execute env Select table (sorting (filter (matches filters) rows)) of
        Inl e \<Rightarrow> Inl (Exception ([S ''Failed to select from '', S table, S '': ''] @ str_exn e))
      | Inr data \<Rightarrow> Inr data)"

text \<open>
  \<open>insert_one\<close> and \<open>insert_many\<close> append to the table and answer with the stored rows;
  \<open>update_by_id\<close> rewrites every row whose id column has the value and answers with the
  first rewritten row, \<open>None\<close> when there is none.  Each returns the new table.
\<close>

definition insert_one ::
  "env \<Rightarrow> string \<Rightarrow> 'r list \<Rightarrow> 'r \<Rightarrow> exn + ('r option \<times> 'r list)" where
  "insert_one env table rows row =
     (case execute env Insert table [row] of
        Inl e \<Rightarrow> Inl (Exception ([S ''Failed to insert into '', S table, S '': ''] @ str_exn e))
      | Inr data \<Rightarrow> Inr (first_row data, rows @ data))"

definition insert_many ::
  "env \<Rightarrow> string \<Rightarrow> 'r list \<Rightarrow> 'r list \<Rightarrow> exn + ('r list \<times> 'r list)" where
  "insert_many env table rows new_rows =
     (case execute env Insert table new_rows of
        Inl e \<Rightarrow> Inl (Exception ([S ''Failed to bulk insert into '', S table, S '': ''] @ str_exn e))
      | Inr data \<Rightarrow> Inr (data, rows @ data))"

definition update_by_id ::
  "env \<Rightarrow> string \<Rightarrow> 'r list \<Rightarrow> ('r \<Rightarrow> 'k) \<Rightarrow> 'k \<Rightarrow> ('r \<Rightarrow> 'r) \<Rightarrow> exn + ('r option \<times> 'r list)" where
  "update_by_id env table rows id_column id_value data =
     (case execute env Update table (map data (filter (eq id_column id_value) rows)) of
        Inl e \<Rightarrow> Inl (Exception ([S ''Failed to update '', S table, S '': ''] @ str_exn e))
      | Inr updated \<Rightarrow>
          Inr (first_row updated,
               map (\<lambda>r. if eq id_column id_value r then data r else r) rows))"

section \<open>Roles and the rows of the store\<close>

datatype UserRole = ADMIN | TEACHER | STUDENT | PARENT | MASTER

datatype FeeStatus = FeeStatus_PAID | FeeStatus_PENDING | FeeStatus_OVERDUE | FeeStatus_PARTIAL

datatype LeaveStatus = LeaveStatus_PENDING | LeaveStatus_APPROVED | LeaveStatus_REJECTED

datatype AttendanceStatus = PRESENT | ABSENT | LATE | EXCUSED

text \<open>
  The rows carry the columns that the endpoints below read or write, typed as the
  response models of \<open>app/models/schemas.py\<close> type them; an enum column holds the enum
  (the source converts with \<open>.value\<close> on the way to the store), a date or a time is a number
  (days, seconds), a Python float is a rational.  A stored row therefore always passes the
  validation of its response model, and a column that the model types as a number holds a
  number, so that the defaults of \<open>fee.get("amount_paid", 0)\<close> and its like never apply.
  The field names are the column names, prefixed by a letter for the table since several
  tables have a \<open>student_id\<close>.  The request bodies are the validated models that the
  framework hands to the endpoint.
\<close>

record TokenPayload =
  tp_sub :: string
  tp_role :: UserRole
  tp_exp :: int

record user_row =
  u_user_id :: string
  u_email :: string
  u_password_hash :: string
  u_role :: UserRole
  u_is_active :: bool
  u_created_at :: int

record student_row =
  s_student_id :: string
  s_user_id :: "string option"
  s_name :: string

record parent_row =
  p_parent_id :: string
  p_user_id :: "string option"

record parent_student_row =
  ps_parent_id :: string
  ps_student_id :: string

record exam_row =
  e_exam_id :: string
  e_exam_name :: string
  e_max_marks :: int

record mark_row =
  m_mark_id :: string
  m_exam_id :: string
  m_student_id :: string
  m_marks_scored :: rat
  m_remarks :: "string option"
  m_created_at :: int

record fee_row =
  f_fee_id :: string
  f_student_id :: string
  f_amount :: rat
  f_fee_type :: string
  f_due_date :: int
  f_status :: FeeStatus
  f_academic_year :: string
  f_amount_paid :: rat
  f_payment_date :: "int option"
  f_payment_method :: "string option"
  f_transaction_id :: "string option"
  f_created_at :: int

record attendance_row =
  a_attendance_id :: string
  a_student_id :: string
  a_date :: int
  a_status :: AttendanceStatus
  a_remarks :: "string option"
  a_created_at :: int

record leave_row =
  l_request_id :: string
  l_student_id :: string
  l_start_date :: int
  l_end_date :: int
  l_reason :: string
  l_status :: LeaveStatus
  l_admin_remarks :: "string option"
  l_created_at :: int
  l_updated_at :: "int option"

record db =
  users :: "user_row list"
  students :: "student_row list"
  parents :: "parent_row list"
  parent_student :: "parent_student_row list"
  exams :: "exam_row list"
  marks :: "mark_row list"
  fees :: "fee_row list"
  attendance :: "attendance_row list"
  leave_requests :: "leave_row list"

text \<open>
  The handler that closes most endpoints:
  \<open>except HTTPException: raise\<close>, then \<open>except Exception as e: raise HTTPException(500, detail)\<close>,
  where \<open>detail\<close> is computed from \<open>e\<close>.  An endpoint that writes returns the store as
  it leaves it beside its result, since a write stays when a later step raises.
\<close>

definition reraise :: "(exn \<Rightarrow> msg) \<Rightarrow> exn \<Rightarrow> exn" where
  "reraise detail e =
     (case e of
        HTTPException code d \<Rightarrow> HTTPException code d
      | _ \<Rightarrow> HTTPException 500 (detail e))"

text \<open>The same handler around a block that only reads the store.\<close>

definition handle_read :: "(exn \<Rightarrow> msg) \<Rightarrow> exn + 'a \<Rightarrow> exn + 'a" where
  "handle_read detail r =
     (case r of
        Inl e \<Rightarrow> Inl (reraise detail e)
      | Inr x \<Rightarrow> Inr x)"

text \<open>
  The list endpoints have \<open>except Exception as e\<close> alone: whatever is raised inside the
  \<open>try\<close> block, an \<open>HTTPException\<close> too, becomes the 500.
\<close>

definition catch_all :: "(exn \<Rightarrow> msg) \<Rightarrow> exn + 'a \<Rightarrow> exn + 'a" where
  "catch_all detail r =
     (case r of
        Inl e \<Rightarrow> Inl (HTTPException 500 (detail e))
      | Inr x \<Rightarrow> Inr x)"

text \<open>
  Python's truth of an optional string argument: \<open>None\<close> and the empty string are false.
\<close>

definition given :: "string option \<Rightarrow> bool" where
  "given a = (case a of None \<Rightarrow> False | Some v \<Rightarrow> v \<noteq> [])"

text \<open>
  \<open>require_teacher\<close> of \<open>app/core/security.py\<close>, in its second definition, the one in
  force: the module defines the function twice and the later \<open>def\<close> replaces the earlier.
\<close>

definition require_teacher :: "TokenPayload \<Rightarrow> exn + TokenPayload" where
  "require_teacher current_user =
     (if tp_role current_user \<notin> set [TEACHER, ADMIN, MASTER]
      then Inl (HTTPException 403 [S ''Teacher access required''])
      else Inr current_user)"

definition handle :: "(exn \<Rightarrow> msg) \<Rightarrow> (exn + 'a) \<times> db \<Rightarrow> (exn + 'a) \<times> db" where
  "handle detail r =
     (case r of
        (Inl e, d) \<Rightarrow> (Inl (reraise detail e), d)
      | (Inr x, d) \<Rightarrow> (Inr x, d))"

section \<open>Fees: \<open>app/api/v1/endpoints/fees.py\<close>\<close>


record FeeResponse =
  fr_fee :: fee_row
  fr_student_name :: "string option"
  fr_balance :: rat

text \<open>\<open>_enrich_fee_response\<close>: the student's name and the balance.\<close>

definition enrich_fee_response :: "env \<Rightarrow> db \<Rightarrow> fee_row \<Rightarrow> exn + (string option \<times> rat)" where
  "enrich_fee_response env d fee =
     (case (if f_student_id fee \<noteq> []
            then select_by_id env ''students'' (students d) s_student_id (f_student_id fee)
            else Inr None) of
        Inl e \<Rightarrow> Inl e
      | Inr student \<Rightarrow>
          Inr (map_option s_name student, f_amount fee - f_amount_paid fee))"

definition make_FeeResponse :: "fee_row \<Rightarrow> string option \<times> rat \<Rightarrow> FeeResponse" where
  "make_FeeResponse fee enriched_data =
     \<lparr>fr_fee = fee, fr_student_name = fst enriched_data, fr_balance = snd enriched_data\<rparr>"




text \<open>
  \<open>get_fees\<close>.  The role section computes the equality filters and, for a parent, the
  list of the children's ids; it runs before the \<open>try\<close>, so what it raises is not converted.
  The loop drops, for a parent, the fees of students who are not in that list.
\<close>

fun fees_loop ::
  "env \<Rightarrow> db \<Rightarrow> TokenPayload \<Rightarrow> string list option \<Rightarrow> fee_row list \<Rightarrow> exn + FeeResponse list" where
  "fees_loop env d current_user student_ids_allowed [] = Inr []"
| "fees_loop env d current_user student_ids_allowed (fee # rest) =
     (if tp_role current_user = PARENT
         \<and> (case student_ids_allowed of
               None \<Rightarrow> False
             | Some ids \<Rightarrow> ids \<noteq> [] \<and> f_student_id fee \<notin> set ids)
      then fees_loop env d current_user student_ids_allowed rest
      else
        (case enrich_fee_response env d fee of
           Inl e \<Rightarrow> Inl e
         | Inr enriched_data \<Rightarrow>
             (case fees_loop env d current_user student_ids_allowed rest of
                Inl e \<Rightarrow> Inl e
              | Inr response_list \<Rightarrow> Inr (make_FeeResponse fee enriched_data # response_list))))"

definition get_fees_try ::
  "env \<Rightarrow> db \<Rightarrow> TokenPayload \<Rightarrow> (fee_row \<Rightarrow> bool) list \<Rightarrow> string list option
     \<Rightarrow> exn + FeeResponse list" where
  "get_fees_try env d current_user filters student_ids_allowed =
     (case select_all env ''fees'' (fees d) filters (order_by f_due_date False) of
        Inl e \<Rightarrow> Inl e
      | Inr fees_list \<Rightarrow> fees_loop env d current_user student_ids_allowed fees_list)"

definition get_fees_from ::
  "env \<Rightarrow> db \<Rightarrow> TokenPayload \<Rightarrow> FeeStatus option \<Rightarrow> string option
     \<Rightarrow> (fee_row \<Rightarrow> bool) list \<Rightarrow> string list option \<Rightarrow> exn + FeeResponse list" where
  "get_fees_from env d current_user status academic_year filters student_ids_allowed =
     catch_all (\<lambda>e. S ''Failed to retrieve fee records: '' # str_exn e)
       (get_fees_try env d current_user
          (filters
           @ (case status of None \<Rightarrow> [] | Some st \<Rightarrow> [eq f_status st])
           @ (if given academic_year then [eq f_academic_year (the academic_year)] else []))
          student_ids_allowed)"

definition get_fees ::
  "env \<Rightarrow> db \<Rightarrow> string option \<Rightarrow> FeeStatus option \<Rightarrow> string option \<Rightarrow> TokenPayload
     \<Rightarrow> exn + FeeResponse list" where
  "get_fees env d student_id status academic_year current_user =
     (if tp_role current_user = STUDENT then
        (case select_one env ''students'' (students d) [eq s_user_id (Some (tp_sub current_user))] of
           Inl e \<Rightarrow> Inl e
         | Inr None \<Rightarrow> Inr []
         | Inr (Some student) \<Rightarrow>
             get_fees_from env d current_user status academic_year
               [eq f_student_id (s_student_id student)] (Some [s_student_id student]))
      else if tp_role current_user = PARENT then
        (case select_one env ''parents'' (parents d) [eq p_user_id (Some (tp_sub current_user))] of
           Inl e \<Rightarrow> Inl e
         | Inr None \<Rightarrow> Inr []
         | Inr (Some parent) \<Rightarrow>
             (case select_all env ''parent_student'' (parent_student d)
                     [eq ps_parent_id (p_parent_id parent)] no_order of
                Inl e \<Rightarrow> Inl e
              | Inr links \<Rightarrow>
                  (let student_ids_allowed = map ps_student_id links
                   in if student_ids_allowed = [] then Inr []
                      else if given student_id \<and> the student_id \<in> set student_ids_allowed
                      then get_fees_from env d current_user status academic_year
                             [eq f_student_id (the student_id)] (Some student_ids_allowed)
                      else if given student_id
                      then Inl (HTTPException 403 [S ''Access denied to this student's records''])
                      else get_fees_from env d current_user status academic_year
                             [] (Some student_ids_allowed))))
      else if given student_id then
        get_fees_from env d current_user status academic_year
          [eq f_student_id (the student_id)] None
      else
        get_fees_from env d current_user status academic_year [] None)"

section \<open>Leave requests: \<open>app/api/v1/endpoints/leave_requests.py\<close>\<close>

text \<open>
  \<open>LeaveRequestCreate\<close> has a \<open>status\<close> field of its own, \<open>pending\<close> when the body gives none.
  \<open>LeaveRequestUpdate\<close> is dumped with \<open>exclude_unset\<close>: an \<open>admin_remarks\<close> that the body
  does not mention (\<open>None\<close> here) leaves the column alone, one that it gives, null or not,
  overwrites it.
\<close>

record LeaveRequestCreate =
  lc_student_id :: string
  lc_start_date :: int
  lc_end_date :: int
  lc_reason :: string
  lc_status :: LeaveStatus

record LeaveRequestUpdate =
  lu_status :: LeaveStatus
  lu_admin_remarks :: "string option option"

record LeaveRequestResponse =
  lr_request :: leave_row
  lr_student_name :: "string option"

definition enrich_leave_response :: "env \<Rightarrow> db \<Rightarrow> leave_row \<Rightarrow> exn + string option" where
  "enrich_leave_response env d request =
     (case (if l_student_id request \<noteq> []
            then select_by_id env ''students'' (students d) s_student_id (l_student_id request)
            else Inr None) of
        Inl e \<Rightarrow> Inl e
      | Inr student \<Rightarrow> Inr (map_option s_name student))"

text \<open>Step 1 of \<open>create_leave_request\<close>: who creates the request, and for which student.\<close>

definition leave_student_id_to_use ::
  "env \<Rightarrow> db \<Rightarrow> LeaveRequestCreate \<Rightarrow> TokenPayload \<Rightarrow> exn + string" where
  "leave_student_id_to_use env d request_data current_user =
     (if tp_role current_user = STUDENT then
        (case select_one env ''students'' (students d) [eq s_user_id (Some (tp_sub current_user))] of
           Inl e \<Rightarrow> Inl e
         | Inr None \<Rightarrow> Inl (HTTPException 404 [S ''Student profile not found for this user.''])
         | Inr (Some student) \<Rightarrow>
             if lc_student_id request_data \<noteq> s_student_id student
             then Inl (HTTPException 403
                    [S ''Students can only submit leave requests for themselves.''])
             else Inr (s_student_id student))
      else if tp_role current_user = PARENT then
        (case select_one env ''parents'' (parents d) [eq p_user_id (Some (tp_sub current_user))] of
           Inl e \<Rightarrow> Inl e
         | Inr None \<Rightarrow> Inl (HTTPException 404 [S ''Parent profile not found for this user.''])
         | Inr (Some parent) \<Rightarrow>
             (case select_all env ''parent_student'' (parent_student d)
                     [eq ps_parent_id (p_parent_id parent)] no_order of
                Inl e \<Rightarrow> Inl e
              | Inr links \<Rightarrow>
                  if lc_student_id request_data \<notin> set (map ps_student_id links)
                  then Inl (HTTPException 403
                         [S ''Parents can only submit requests for their own children.''])
                  else Inr (lc_student_id request_data)))
      else if tp_role current_user = ADMIN then
        (case select_by_id env ''students'' (students d) s_student_id
                (lc_student_id request_data) of
           Inl e \<Rightarrow> Inl e
         | Inr None \<Rightarrow> Inl (HTTPException 404 [S ''Student not found.''])
         | Inr (Some student) \<Rightarrow> Inr (lc_student_id request_data))
      else Inl (HTTPException 403
             [S ''Only Students, Parents, or Admins can create leave requests.'']))"

text \<open>
  Steps 2 to 5: the row is the dumped request with the student id of step 1; the store adds
  \<open>request_id\<close> and \<open>created_at\<close>.
\<close>

definition create_leave_request_try ::
  "env \<Rightarrow> db \<Rightarrow> LeaveRequestCreate \<Rightarrow> TokenPayload \<Rightarrow> (exn + LeaveRequestResponse) \<times> db" where
  "create_leave_request_try env d request_data current_user =
     (case leave_student_id_to_use env d request_data current_user of
        Inl e \<Rightarrow> (Inl e, d)
      | Inr student_id_to_use \<Rightarrow>
          (let request_dict =
                 \<lparr>l_request_id = gen_id env 0,
                  l_student_id = student_id_to_use,
                  l_start_date = lc_start_date request_data,
                  l_end_date = lc_end_date request_data,
                  l_reason = lc_reason request_data,
                  l_status = lc_status request_data,
                  l_admin_remarks = None,
                  l_created_at = now env,
                  l_updated_at = None\<rparr>
           in case insert_one env ''leave_requests'' (leave_requests d) request_dict of
                Inl e \<Rightarrow> (Inl e, d)
              | Inr (None, requests') \<Rightarrow>
                  (Inl (TypeError [S ''NoneType object is not subscriptable'']),
                   d\<lparr>leave_requests := requests'\<rparr>)
              | Inr (Some new_request, requests') \<Rightarrow>
                  (case enrich_leave_response env (d\<lparr>leave_requests := requests'\<rparr>) new_request of
                     Inl e \<Rightarrow> (Inl e, d\<lparr>leave_requests := requests'\<rparr>)
                   | Inr student_name \<Rightarrow>
                       (Inr \<lparr>lr_request = new_request, lr_student_name = student_name\<rparr>,
                        d\<lparr>leave_requests := requests'\<rparr>))))"

definition create_leave_request ::
  "env \<Rightarrow> db \<Rightarrow> LeaveRequestCreate \<Rightarrow> TokenPayload \<Rightarrow> (exn + LeaveRequestResponse) \<times> db" where
  "create_leave_request env d request_data current_user =
     handle (\<lambda>e. S ''Failed to create request: '' # str_exn e)
       (create_leave_request_try env d request_data current_user)"

definition leave_update :: "env \<Rightarrow> LeaveRequestUpdate \<Rightarrow> leave_row \<Rightarrow> leave_row" where
  "leave_update env update_data r =
     r\<lparr>l_status := lu_status update_data,
       l_admin_remarks :=
         (case lu_admin_remarks update_data of None \<Rightarrow> l_admin_remarks r | Some v \<Rightarrow> v),
       l_updated_at := Some (now env)\<rparr>"

definition update_leave_request_status_try ::
  "env \<Rightarrow> db \<Rightarrow> string \<Rightarrow> LeaveRequestUpdate \<Rightarrow> (exn + LeaveRequestResponse) \<times> db" where
  "update_leave_request_status_try env d request_id update_data =
     (case select_by_id env ''leave_requests'' (leave_requests d) l_request_id request_id of
        Inl e \<Rightarrow> (Inl e, d)
      | Inr None \<Rightarrow> (Inl (HTTPException 404 [S ''Leave request not found'']), d)
      | Inr (Some existing_request) \<Rightarrow>
          (case update_by_id env ''leave_requests'' (leave_requests d) l_request_id request_id
                  (leave_update env update_data) of
             Inl e \<Rightarrow> (Inl e, d)
           | Inr (None, requests') \<Rightarrow>
               (Inl (AttributeError [S ''NoneType object has no attribute get'']),
                d\<lparr>leave_requests := requests'\<rparr>)
           | Inr (Some updated_request, requests') \<Rightarrow>
               (case enrich_leave_response env (d\<lparr>leave_requests := requests'\<rparr>)
                       updated_request of
                  Inl e \<Rightarrow> (Inl e, d\<lparr>leave_requests := requests'\<rparr>)
                | Inr student_name \<Rightarrow>
                    (Inr \<lparr>lr_request = updated_request, lr_student_name = student_name\<rparr>,
                     d\<lparr>leave_requests := requests'\<rparr>))))"

text \<open>
  The endpoint with its dependency \<open>Depends(require_teacher)\<close>: the framework runs the
  dependency on the caller that \<open>get_current_user\<close> returned, and the body only if it passes.
\<close>

definition update_leave_request_status ::
  "env \<Rightarrow> db \<Rightarrow> string \<Rightarrow> LeaveRequestUpdate \<Rightarrow> TokenPayload
     \<Rightarrow> (exn + LeaveRequestResponse) \<times> db" where
  "update_leave_request_status env d request_id update_data user =
     (case require_teacher user of
        Inl e \<Rightarrow> (Inl e, d)
      | Inr current_user \<Rightarrow>
          handle (\<lambda>e. S ''Failed to update request: '' # str_exn e)
            (update_leave_request_status_try env d request_id update_data))"

section \<open>Registration: \<open>register_user\<close> of \<open>app/api/v1/endpoints/auth.py\<close>\<close>





section \<open>Marks: \<open>app/api/v1/endpoints/marks.py\<close>\<close>

record MarksCreate =
  mc_exam_id :: string
  mc_student_id :: string
  mc_marks_scored :: rat
  mc_remarks :: "string option"

record MarksResponse =
  mr_mark :: mark_row
  mr_student_name :: "string option"
  mr_exam_name :: "string option"
  mr_max_marks :: "int option"
  mr_percentage :: "rat option"

text \<open>
  \<open>round(x, 2)\<close>, to the nearest hundredth and to the even one at a tie.  The source
  rounds a float; no property below depends on the digits of a percentage.
\<close>

definition round2 :: "rat \<Rightarrow> rat" where
  "round2 x =
     (let y = x * 100; f = \<lfloor>y\<rfloor>; r = y - of_int f
      in of_int (if r < 1 / 2 then f
                 else if r > 1 / 2 then f + 1
                 else if even f then f else f + 1) / 100)"

definition enrich_mark_response ::
  "env \<Rightarrow> db \<Rightarrow> mark_row \<Rightarrow> exn + (string option \<times> string option \<times> int option \<times> rat option)" where
  "enrich_mark_response env d mark =
     (case (if m_student_id mark \<noteq> []
            then select_by_id env ''students'' (students d) s_student_id (m_student_id mark)
            else Inr None) of
        Inl e \<Rightarrow> Inl e
      | Inr student \<Rightarrow>
          (case (if m_exam_id mark \<noteq> []
                 then select_by_id env ''exams'' (exams d) e_exam_id (m_exam_id mark)
                 else Inr None) of
             Inl e \<Rightarrow> Inl e
           | Inr exam \<Rightarrow>
               (let max_marks = map_option e_max_marks exam;
                    percentage =
                      (case max_marks of
                         None \<Rightarrow> None
                       | Some mx \<Rightarrow>
                           if mx > 0
                           then Some (round2 (m_marks_scored mark / of_int mx * 100))
                           else None)
                in Inr (map_option s_name student, map_option e_exam_name exam,
                        max_marks, percentage))))"

definition make_MarksResponse ::
  "mark_row \<Rightarrow> string option \<times> string option \<times> int option \<times> rat option \<Rightarrow> MarksResponse" where
  "make_MarksResponse mark enriched_data =
     (case enriched_data of
        (student_name, exam_name, max_marks, percentage) \<Rightarrow>
          \<lparr>mr_mark = mark, mr_student_name = student_name, mr_exam_name = exam_name,
           mr_max_marks = max_marks, mr_percentage = percentage\<rparr>)"

text \<open>The dumped \<open>MarksCreate\<close> as the row the store keeps, with its \<open>mark_id\<close> and \<open>created_at\<close>.\<close>

definition mark_dict :: "env \<Rightarrow> nat \<Rightarrow> MarksCreate \<Rightarrow> mark_row" where
  "mark_dict env k mark_data =
     \<lparr>m_mark_id = gen_id env k,
      m_exam_id = mc_exam_id mark_data,
      m_student_id = mc_student_id mark_data,
      m_marks_scored = mc_marks_scored mark_data,
      m_remarks = mc_remarks mark_data,
      m_created_at = now env\<rparr>"

definition create_mark_try :: "env \<Rightarrow> db \<Rightarrow> MarksCreate \<Rightarrow> (exn + MarksResponse) \<times> db" where
  "create_mark_try env d mark_data =
     (case select_by_id env ''exams'' (exams d) e_exam_id (mc_exam_id mark_data) of
        Inl e \<Rightarrow> (Inl e, d)
      | Inr None \<Rightarrow> (Inl (HTTPException 404 [S ''Exam not found'']), d)
      | Inr (Some exam) \<Rightarrow>
          (case select_by_id env ''students'' (students d) s_student_id
                  (mc_student_id mark_data) of
             Inl e \<Rightarrow> (Inl e, d)
           | Inr None \<Rightarrow> (Inl (HTTPException 404 [S ''Student not found'']), d)
           | Inr (Some student) \<Rightarrow>
               (case select_one env ''marks'' (marks d)
                       [eq m_exam_id (mc_exam_id mark_data),
                        eq m_student_id (mc_student_id mark_data)] of
                  Inl e \<Rightarrow> (Inl e, d)
                | Inr (Some existing) \<Rightarrow>
                    (Inl (HTTPException 400
                       [S ''Marks for this student and exam already exist.'']), d)
                | Inr None \<Rightarrow>
                    (let max_marks = e_max_marks exam
                     in if mc_marks_scored mark_data > of_int max_marks
                        then (Inl (HTTPException 400
                                [S ''Marks scored ('', N (mc_marks_scored mark_data),
                                 S '') cannot be greater than max marks ('', I max_marks,
                                 S '')'']), d)
                        else
                          (case insert_one env ''marks'' (marks d) (mark_dict env 0 mark_data) of
                             Inl e \<Rightarrow> (Inl e, d)
                           | Inr (None, marks') \<Rightarrow>
                               (Inl (TypeError [S ''NoneType object is not subscriptable'']),
                                d\<lparr>marks := marks'\<rparr>)
                           | Inr (Some new_mark, marks') \<Rightarrow>
                               (case enrich_mark_response env (d\<lparr>marks := marks'\<rparr>) new_mark of
                                  Inl e \<Rightarrow> (Inl e, d\<lparr>marks := marks'\<rparr>)
                                | Inr enriched_data \<Rightarrow>
                                    (Inr (make_MarksResponse new_mark enriched_data),
                                     d\<lparr>marks := marks'\<rparr>)))))))"

definition create_mark ::
  "env \<Rightarrow> db \<Rightarrow> MarksCreate \<Rightarrow> TokenPayload \<Rightarrow> (exn + MarksResponse) \<times> db" where
  "create_mark env d mark_data user =
     (case require_teacher user of
        Inl e \<Rightarrow> (Inl e, d)
      | Inr current_user \<Rightarrow>
          handle (\<lambda>e. S ''Failed to create mark: '' # str_exn e)
            (create_mark_try env d mark_data))"

text \<open>
  \<open>create_bulk_marks\<close>.  The loop over \<open>enumerate(marks_list)\<close> appends either to \<open>errors\<close>
  or to \<open>records_to_insert\<close>; it checks the exam id against the first and the score against
  that exam's \<open>max_marks\<close>, and nothing else.  The exam is fetched outside any \<open>try\<close>.
\<close>

record BulkError =
  be_index :: nat
  be_student_id :: "string option"
  be_error :: msg

record BulkResult =
  br_message :: string
  br_created_count :: nat
  br_errors :: "BulkError list"

fun bulk_loop ::
  "string \<Rightarrow> int \<Rightarrow> nat \<Rightarrow> MarksCreate list \<Rightarrow> BulkError list \<Rightarrow> MarksCreate list
     \<Rightarrow> BulkError list \<times> MarksCreate list" where
  "bulk_loop first_exam_id max_marks i [] errors records_to_insert =
     (errors, records_to_insert)"
| "bulk_loop first_exam_id max_marks i (mark_data # rest) errors records_to_insert =
     (if mc_exam_id mark_data \<noteq> first_exam_id
      then bulk_loop first_exam_id max_marks (Suc i) rest
             (errors @ [\<lparr>be_index = i, be_student_id = None,
                          be_error = [S ''All marks in a bulk upload must be for the same exam.'']\<rparr>])
             records_to_insert
      else if mc_marks_scored mark_data > of_int max_marks
      then bulk_loop first_exam_id max_marks (Suc i) rest
             (errors @ [\<lparr>be_index = i, be_student_id = Some (mc_student_id mark_data),
                          be_error = [S ''Marks ('', N (mc_marks_scored mark_data),
                                      S '') exceed max marks ('', I max_marks, S '').'']\<rparr>])
             records_to_insert
      else bulk_loop first_exam_id max_marks (Suc i) rest errors
             (records_to_insert @ [mark_data]))"

definition create_bulk_marks ::
  "env \<Rightarrow> db \<Rightarrow> MarksCreate list \<Rightarrow> TokenPayload \<Rightarrow> (exn + BulkResult) \<times> db" where
  "create_bulk_marks env d marks_list user =
     (case require_teacher user of
        Inl e \<Rightarrow> (Inl e, d)
      | Inr current_user \<Rightarrow>
          (case marks_list of
             [] \<Rightarrow> (Inl (HTTPException 400 [S ''No marks data provided.'']), d)
           | first # others \<Rightarrow>
               (let first_exam_id = mc_exam_id first
                in case select_by_id env ''exams'' (exams d) e_exam_id first_exam_id of
                     Inl e \<Rightarrow> (Inl e, d)
                   | Inr None \<Rightarrow>
                       (Inl (HTTPException 404
                          [S ''Exam with ID '', S first_exam_id, S '' not found.'']), d)
                   | Inr (Some exam) \<Rightarrow>
                       (case bulk_loop first_exam_id (e_max_marks exam) 0 marks_list [] [] of
                          (errors, records_to_insert) \<Rightarrow>
                            if records_to_insert \<noteq> []
                            then
                              (case insert_many env ''marks'' (marks d)
                                      (map (\<lambda>(k, mark_data). mark_dict env k mark_data)
                                         (enumerate 0 records_to_insert)) of
                                 Inl e \<Rightarrow>
                                   (Inl (HTTPException 500
                                      (S ''Failed to create marks in bulk: '' # str_exn e)), d)
                               | Inr (new_marks, marks') \<Rightarrow>
                                   (Inr \<lparr>br_message = ''Bulk marks processed.'',
                                         br_created_count = length new_marks,
                                         br_errors = errors\<rparr>,
                                    d\<lparr>marks := marks'\<rparr>))
                            else
                              (Inr \<lparr>br_message = ''Bulk marks processed.'',
                                    br_created_count = 0,
                                    br_errors = errors\<rparr>, d)))))"




text \<open>
  \<open>get_mark\<close>.  The student branch tests \<open>not student_profile\<close> before it reads the
  profile; the parent branch reads \<open>parent_profile["parent_id"]\<close> at once, which on \<open>None\<close>
  is a \<open>TypeError\<close>.
\<close>

definition get_mark_student_check :: "env \<Rightarrow> db \<Rightarrow> mark_row \<Rightarrow> TokenPayload \<Rightarrow> exn + unit" where
  "get_mark_student_check env d mark current_user =
     (if tp_role current_user = STUDENT then
        (case select_one env ''students'' (students d) [eq s_user_id (Some (tp_sub current_user))] of
           Inl e \<Rightarrow> Inl e
         | Inr None \<Rightarrow> Inl (HTTPException 403 [S ''Access denied''])
         | Inr (Some student_profile) \<Rightarrow>
             if m_student_id mark \<noteq> s_student_id student_profile
             then Inl (HTTPException 403 [S ''Access denied''])
             else Inr ())
      else Inr ())"

definition get_mark_parent_check :: "env \<Rightarrow> db \<Rightarrow> mark_row \<Rightarrow> TokenPayload \<Rightarrow> exn + unit" where
  "get_mark_parent_check env d mark current_user =
     (if tp_role current_user = PARENT then
        (case select_one env ''parents'' (parents d) [eq p_user_id (Some (tp_sub current_user))] of
           Inl e \<Rightarrow> Inl e
         | Inr None \<Rightarrow> Inl (TypeError [S ''NoneType object is not subscriptable''])
         | Inr (Some parent_profile) \<Rightarrow>
             (case select_all env ''parent_student'' (parent_student d)
                     [eq ps_parent_id (p_parent_id parent_profile)] no_order of
                Inl e \<Rightarrow> Inl e
              | Inr child_links \<Rightarrow>
                  if m_student_id mark \<notin> set (map ps_student_id child_links)
                  then Inl (HTTPException 403 [S ''Access denied''])
                  else Inr ()))
      else Inr ())"

definition get_mark_try :: "env \<Rightarrow> db \<Rightarrow> string \<Rightarrow> TokenPayload \<Rightarrow> exn + MarksResponse" where
  "get_mark_try env d mark_id current_user =
     (case select_by_id env ''marks'' (marks d) m_mark_id mark_id of
        Inl e \<Rightarrow> Inl e
      | Inr None \<Rightarrow> Inl (HTTPException 404 [S ''Mark not found''])
      | Inr (Some mark) \<Rightarrow>
          (case get_mark_student_check env d mark current_user of
             Inl e \<Rightarrow> Inl e
           | Inr u \<Rightarrow>
               (case get_mark_parent_check env d mark current_user of
                  Inl e \<Rightarrow> Inl e
                | Inr v \<Rightarrow>
                    (case enrich_mark_response env d mark of
                       Inl e \<Rightarrow> Inl e
                     | Inr enriched_data \<Rightarrow> Inr (make_MarksResponse mark enriched_data)))))"

definition get_mark :: "env \<Rightarrow> db \<Rightarrow> string \<Rightarrow> TokenPayload \<Rightarrow> exn + MarksResponse" where
  "get_mark env d mark_id current_user =
     handle_read (\<lambda>e. S ''Failed to retrieve mark: '' # str_exn e)
       (get_mark_try env d mark_id current_user)"

section \<open>Attendance: \<open>mark_attendance\<close> of \<open>app/api/v1/endpoints/attendance.py\<close>\<close>

record AttendanceCreate =
  ac_student_id :: string
  ac_date :: int
  ac_status :: AttendanceStatus
  ac_remarks :: "string option"

record AttendanceResponse =
  ar_attendance :: attendance_row
  ar_student_name :: "string option"

text \<open>
  The check for an existing record queries the client directly with the two equalities on
  \<open>student_id\<close> and \<open>date\<close>.  The 500 of this endpoint has a fixed detail.
\<close>

definition mark_attendance_try ::
  "env \<Rightarrow> db \<Rightarrow> AttendanceCreate \<Rightarrow> (exn + AttendanceResponse) \<times> db" where
  "mark_attendance_try env d attendance_data =
     (case execute env Select ''attendance''
             (filter (\<lambda>r. eq a_student_id (ac_student_id attendance_data) r
                          \<and> eq a_date (ac_date attendance_data) r) (attendance d)) of
        Inl e \<Rightarrow> (Inl e, d)
      | Inr existing \<Rightarrow>
          if existing \<noteq> []
          then (Inl (HTTPException 400 [S ''Attendance already marked for this date'']), d)
          else
            (let attendance_dict =
                   \<lparr>a_attendance_id = gen_id env 0,
                    a_student_id = ac_student_id attendance_data,
                    a_date = ac_date attendance_data,
                    a_status = ac_status attendance_data,
                    a_remarks = ac_remarks attendance_data,
                    a_created_at = now env\<rparr>
             in case insert_one env ''attendance'' (attendance d) attendance_dict of
                  Inl e \<Rightarrow> (Inl e, d)
                | Inr (new_attendance, attendance') \<Rightarrow>
                    (case select_by_id env ''students'' (students d) s_student_id
                            (ac_student_id attendance_data) of
                       Inl e \<Rightarrow> (Inl e, d\<lparr>attendance := attendance'\<rparr>)
                     | Inr student \<Rightarrow>
                         (case new_attendance of
                            None \<Rightarrow>
                              (Inl (TypeError [S ''argument after ** must be a mapping, not NoneType'']),
                               d\<lparr>attendance := attendance'\<rparr>)
                          | Some row \<Rightarrow>
                              (Inr \<lparr>ar_attendance = row,
                                    ar_student_name = map_option s_name student\<rparr>,
                               d\<lparr>attendance := attendance'\<rparr>)))))"

definition mark_attendance ::
  "env \<Rightarrow> db \<Rightarrow> AttendanceCreate \<Rightarrow> TokenPayload \<Rightarrow> (exn + AttendanceResponse) \<times> db" where
  "mark_attendance env d attendance_data user =
     (case require_teacher user of
        Inl e \<Rightarrow> (Inl e, d)
      | Inr current_user \<Rightarrow>
          handle (\<lambda>e. [S ''Failed to mark attendance'']) (mark_attendance_try env d attendance_data))"

text \<open>
  A sequence of \<open>mark_attendance\<close> requests, each with its own environment, body and
  caller; the store is handed from one to the next.
\<close>

fun mark_attendance_seq :: "db \<Rightarrow> (env \<times> AttendanceCreate \<times> TokenPayload) list \<Rightarrow> db" where
  "mark_attendance_seq d [] = d"
| "mark_attendance_seq d ((env, attendance_data, user) # calls) =
     mark_attendance_seq (snd (mark_attendance env d attendance_data user)) calls"

text \<open>The number of stored attendance records of a student on a date.\<close>

definition attendance_count :: "db \<Rightarrow> string \<Rightarrow> int \<Rightarrow> nat" where
  "attendance_count d student_id date =
     length (filter (\<lambda>r. a_student_id r = student_id \<and> a_date r = date) (attendance d))"

section \<open>Tokens: \<open>app/core/security.py\<close> and \<open>refresh_token\<close> of \<open>auth.py\<close>\<close>














section \<open>A small school, for the instances below\<close>

definition env0 :: env where
  "env0 = \<lparr>fails = (\<lambda>op table. None), now = 1000,
           gen_id = (\<lambda>k. replicate (Suc k) CHR ''n''),
           hash_password = (\<lambda>password. ''hash:'' @ password)\<rparr>"


definition db0 :: db where
  "db0 =
     \<lparr>users = [],
      students =
        [\<lparr>s_student_id = ''s1'', s_user_id = Some ''u1'', s_name = ''Asha''\<rparr>,
         \<lparr>s_student_id = ''s2'', s_user_id = Some ''u2'', s_name = ''Bala''\<rparr>,
         \<lparr>s_student_id = ''s3'', s_user_id = Some ''u3'', s_name = ''Chitra''\<rparr>],
      parents = [\<lparr>p_parent_id = ''p1'', p_user_id = Some ''u7''\<rparr>],
      parent_student =
        [\<lparr>ps_parent_id = ''p1'', ps_student_id = ''s1''\<rparr>,
         \<lparr>ps_parent_id = ''p1'', ps_student_id = ''s2''\<rparr>],
      exams = [\<lparr>e_exam_id = ''e1'', e_exam_name = ''Midterm'', e_max_marks = 100\<rparr>],
      marks =
        [\<lparr>m_mark_id = ''m1'', m_exam_id = ''e1'', m_student_id = ''s1'',
          m_marks_scored = 50, m_remarks = None, m_created_at = 10\<rparr>],
      fees =
        [\<lparr>f_fee_id = ''f1'', f_student_id = ''s1'', f_amount = 100, f_fee_type = ''tuition'',
          f_due_date = 30, f_status = FeeStatus_PARTIAL, f_academic_year = ''2025'',
          f_amount_paid = 60, f_payment_date = None, f_payment_method = None,
          f_transaction_id = None, f_created_at = 1\<rparr>,
         \<lparr>f_fee_id = ''f2'', f_student_id = ''s2'', f_amount = 80, f_fee_type = ''tuition'',
          f_due_date = 20, f_status = FeeStatus_PENDING, f_academic_year = ''2025'',
          f_amount_paid = 0, f_payment_date = None, f_payment_method = None,
          f_transaction_id = None, f_created_at = 2\<rparr>,
         \<lparr>f_fee_id = ''f3'', f_student_id = ''s3'', f_amount = 90, f_fee_type = ''tuition'',
          f_due_date = 25, f_status = FeeStatus_PENDING, f_academic_year = ''2025'',
          f_amount_paid = 0, f_payment_date = None, f_payment_method = None,
          f_transaction_id = None, f_created_at = 3\<rparr>],
      attendance =
        [\<lparr>a_attendance_id = ''a1'', a_student_id = ''s1'', a_date = 5, a_status = PRESENT,
          a_remarks = None, a_created_at = 5\<rparr>],
      leave_requests =
        [\<lparr>l_request_id = ''r1'', l_student_id = ''s1'', l_start_date = 40, l_end_date = 41,
          l_reason = ''fever'', l_status = LeaveStatus_APPROVED, l_admin_remarks = None,
          l_created_at = 7, l_updated_at = Some 8\<rparr>]\<rparr>"

definition caller :: "string \<Rightarrow> UserRole \<Rightarrow> TokenPayload" where
  "caller user_id r = \<lparr>tp_sub = user_id, tp_role = r, tp_exp = 5000\<rparr>"


section \<open>The gateway when the store answers, and when it does not\<close>

lemma first_row_filter: "first_row (filter P xs) = find P xs"
  by (induction xs) (auto simp: first_row_def)

lemma select_by_id_ok:
  "fails env Select table = None \<Longrightarrow>
   select_by_id env table rows col v = Inr (find (\<lambda>r. col r = v) rows)"
  by (simp add: select_by_id_def execute_def first_row_filter eq_def[abs_def])


lemma first_row_take: "first_row (take (Suc 0) xs) = first_row xs"
  by (cases xs) (simp_all add: first_row_def)

lemma select_one_ok:
  "fails env Select table = None \<Longrightarrow>
   select_one env table rows filters = Inr (find (matches filters) rows)"
  by (simp add: select_one_def execute_def first_row_take first_row_filter)

lemma select_all_ok:
  "fails env Select table = None \<Longrightarrow>
   select_all env table rows filters sorting = Inr (sorting (filter (matches filters) rows))"
  by (simp add: select_all_def execute_def)


lemma insert_one_ok:
  "fails env Insert table = None \<Longrightarrow>
   insert_one env table rows row = Inr (Some row, rows @ [row])"
  by (simp add: insert_one_def execute_def first_row_def)

lemma insert_one_table:
  "insert_one env table rows row = Inr (r, rows') \<Longrightarrow> r = Some row \<and> rows' = rows @ [row]"
  by (auto simp: insert_one_def execute_def first_row_def split: option.splits)

lemma update_by_id_ok:
  "fails env Update table = None \<Longrightarrow>
   update_by_id env table rows col v data =
     Inr (map_option data (find (\<lambda>r. col r = v) rows),
          map (\<lambda>r. if col r = v then data r else r) rows)"
proof -
  have "first_row (map data (filter P rows)) = map_option data (find P rows)" for P
    by (induction rows) (auto simp: first_row_def)
  then show "fails env Update table = None \<Longrightarrow> ?thesis"
    by (simp add: update_by_id_def execute_def eq_def[abs_def])
qed

section \<open>Fee payments\<close>



lemma enrich_leave_response_ok:
  "fails env Select ''students'' = None \<Longrightarrow> \<exists>n. enrich_leave_response env d r = Inr n"
  by (simp add: enrich_leave_response_def select_by_id_ok)

section \<open>Leave requests\<close>

text \<open>
  C2, as stated, fails: a student who creates a leave request for themselves with
  \<open>status = approved\<close> in the body gets it stored as \<open>approved\<close>.
\<close>

theorem create_leave_request_keeps_supplied_status_counterexample:
  "create_leave_request env0 db0
     \<lparr>lc_student_id = ''s1'', lc_start_date = 50, lc_end_date = 51, lc_reason = ''trip'',
      lc_status = LeaveStatus_APPROVED\<rparr> (caller ''u1'' STUDENT) =
   (Inr \<lparr>lr_request =
           \<lparr>l_request_id = ''n'', l_student_id = ''s1'', l_start_date = 50, l_end_date = 51,
            l_reason = ''trip'', l_status = LeaveStatus_APPROVED, l_admin_remarks = None,
            l_created_at = 1000, l_updated_at = None\<rparr>,
         lr_student_name = Some ''Asha''\<rparr>,
    db0\<lparr>leave_requests := leave_requests db0 @
           [\<lparr>l_request_id = ''n'', l_student_id = ''s1'', l_start_date = 50, l_end_date = 51,
             l_reason = ''trip'', l_status = LeaveStatus_APPROVED, l_admin_remarks = None,
             l_created_at = 1000, l_updated_at = None\<rparr>]\<rparr>)"
  by (simp add: create_leave_request_def create_leave_request_try_def
      leave_student_id_to_use_def select_one_def select_by_id_def insert_one_def execute_def
      enrich_leave_response_def first_row_def matches_def eq_def handle_def Let_def
      env0_def db0_def caller_def)

text \<open>
  C2, amended.  After every successful \<open>create_leave_request\<close> the store holds one more
  leave request, the one in the response, and its status is the status of the request body.
\<close>

theorem create_leave_request_stores_body_status:
  assumes "create_leave_request env d request_data current_user = (Inr response, d')"
  shows "leave_requests d' = leave_requests d @ [lr_request response]
         \<and> l_status (lr_request response) = lc_status request_data"
proof -
  from assms have t: "create_leave_request_try env d request_data current_user = (Inr response, d')"
    by (auto simp: create_leave_request_def handle_def split: prod.splits sum.splits)
  then show ?thesis
    by (auto simp: create_leave_request_try_def Let_def
        split: sum.splits option.splits prod.splits dest!: insert_one_table)
qed

text \<open>A parent creates a request for a child with \<open>status = rejected\<close>.\<close>

theorem create_leave_request_stores_body_status_witness:
  "create_leave_request env0 db0
     \<lparr>lc_student_id = ''s1'', lc_start_date = 50, lc_end_date = 51, lc_reason = ''trip'',
      lc_status = LeaveStatus_REJECTED\<rparr> (caller ''u7'' PARENT) =
   (Inr \<lparr>lr_request =
           \<lparr>l_request_id = ''n'', l_student_id = ''s1'', l_start_date = 50, l_end_date = 51,
            l_reason = ''trip'', l_status = LeaveStatus_REJECTED, l_admin_remarks = None,
            l_created_at = 1000, l_updated_at = None\<rparr>,
         lr_student_name = Some ''Asha''\<rparr>,
    db0\<lparr>leave_requests := leave_requests db0 @
           [\<lparr>l_request_id = ''n'', l_student_id = ''s1'', l_start_date = 50, l_end_date = 51,
             l_reason = ''trip'', l_status = LeaveStatus_REJECTED, l_admin_remarks = None,
             l_created_at = 1000, l_updated_at = None\<rparr>]\<rparr>)
   \<and> map l_status (leave_requests (db0\<lparr>leave_requests := leave_requests db0 @
           [\<lparr>l_request_id = ''n'', l_student_id = ''s1'', l_start_date = 50, l_end_date = 51,
             l_reason = ''trip'', l_status = LeaveStatus_REJECTED, l_admin_remarks = None,
             l_created_at = 1000, l_updated_at = None\<rparr>]\<rparr>))
       = [LeaveStatus_APPROVED, LeaveStatus_REJECTED]"
proof -
  let ?body = "\<lparr>lc_student_id = ''s1'', lc_start_date = 50, lc_end_date = 51,
                lc_reason = ''trip'', lc_status = LeaveStatus_REJECTED\<rparr>"
  let ?row = "\<lparr>l_request_id = ''n'', l_student_id = ''s1'', l_start_date = 50, l_end_date = 51,
            l_reason = ''trip'', l_status = LeaveStatus_REJECTED, l_admin_remarks = None,
            l_created_at = 1000, l_updated_at = None\<rparr>"
  have run: "create_leave_request env0 db0 ?body (caller ''u7'' PARENT) =
      (Inr \<lparr>lr_request = ?row, lr_student_name = Some ''Asha''\<rparr>,
       db0\<lparr>leave_requests := leave_requests db0 @ [?row]\<rparr>)"
    by (simp add: create_leave_request_def create_leave_request_try_def
      leave_student_id_to_use_def select_one_def select_all_def select_by_id_def insert_one_def
      execute_def enrich_leave_response_def first_row_def matches_def eq_def handle_def Let_def
      no_order_def env0_def db0_def caller_def)
  from create_leave_request_stores_body_status [OF run] run show ?thesis
    by (simp add: db0_def)
qed

text \<open>
  C3, as stated, fails: the request \<open>r1\<close> is \<open>approved\<close>, and a teacher's update with
  \<open>status = rejected\<close> succeeds and leaves it \<open>rejected\<close>.
\<close>

theorem update_leave_request_status_reopens_counterexample:
  "map l_status (leave_requests db0) = [LeaveStatus_APPROVED]
   \<and> update_leave_request_status env0 db0 ''r1''
        \<lparr>lu_status = LeaveStatus_REJECTED, lu_admin_remarks = None\<rparr> (caller ''u5'' TEACHER) =
       (Inr \<lparr>lr_request =
               \<lparr>l_request_id = ''r1'', l_student_id = ''s1'', l_start_date = 40,
                l_end_date = 41, l_reason = ''fever'', l_status = LeaveStatus_REJECTED,
                l_admin_remarks = None, l_created_at = 7, l_updated_at = Some 1000\<rparr>,
             lr_student_name = Some ''Asha''\<rparr>,
        db0\<lparr>leave_requests :=
              [\<lparr>l_request_id = ''r1'', l_student_id = ''s1'', l_start_date = 40,
                l_end_date = 41, l_reason = ''fever'', l_status = LeaveStatus_REJECTED,
                l_admin_remarks = None, l_created_at = 7, l_updated_at = Some 1000\<rparr>]\<rparr>)"
  by (simp add: update_leave_request_status_def update_leave_request_status_try_def
      require_teacher_def select_by_id_def update_by_id_def execute_def leave_update_def
      enrich_leave_response_def first_row_def eq_def handle_def env0_def db0_def caller_def)

text \<open>
  C3, amended.  A caller whose role is not teacher, admin or master receives the 403 and the
  store is unchanged.  For a teacher, admin or master, when the store answers and the
  request exists, the update succeeds whatever the current status of the request is, and
  sets the status of every row with that id to the status of the body: any of \<open>pending\<close>,
  \<open>approved\<close>, \<open>rejected\<close> can follow any of them.
\<close>

theorem update_leave_request_status_sets_any_status:
  "(tp_role user \<notin> set [TEACHER, ADMIN, MASTER] \<longrightarrow>
      update_leave_request_status env d request_id update_data user =
        (Inl (HTTPException 403 [S ''Teacher access required'']), d))
   \<and> (tp_role user \<in> set [TEACHER, ADMIN, MASTER]
        \<and> fails env Select ''leave_requests'' = None
        \<and> fails env Update ''leave_requests'' = None
        \<and> fails env Select ''students'' = None
        \<and> find (\<lambda>r. l_request_id r = request_id) (leave_requests d) = Some existing_request \<longrightarrow>
      (\<exists>student_name.
         update_leave_request_status env d request_id update_data user =
           (Inr \<lparr>lr_request = leave_update env update_data existing_request,
                 lr_student_name = student_name\<rparr>,
            d\<lparr>leave_requests :=
                 map (\<lambda>r. if l_request_id r = request_id then leave_update env update_data r
                           else r) (leave_requests d)\<rparr>))
      \<and> l_status (leave_update env update_data existing_request) = lu_status update_data)"
proof -
  have denied: "update_leave_request_status env d request_id update_data user =
        (Inl (HTTPException 403 [S ''Teacher access required'']), d)"
    if "tp_role user \<notin> set [TEACHER, ADMIN, MASTER]"
    using that by (simp add: update_leave_request_status_def require_teacher_def)
  have allowed: "(\<exists>student_name.
         update_leave_request_status env d request_id update_data user =
           (Inr \<lparr>lr_request = leave_update env update_data existing_request,
                 lr_student_name = student_name\<rparr>,
            d\<lparr>leave_requests :=
                 map (\<lambda>r. if l_request_id r = request_id then leave_update env update_data r
                           else r) (leave_requests d)\<rparr>))
      \<and> l_status (leave_update env update_data existing_request) = lu_status update_data"
    if a: "tp_role user \<in> set [TEACHER, ADMIN, MASTER]
        \<and> fails env Select ''leave_requests'' = None
        \<and> fails env Update ''leave_requests'' = None
        \<and> fails env Select ''students'' = None
        \<and> find (\<lambda>r. l_request_id r = request_id) (leave_requests d) = Some existing_request"
  proof -
    from a have rt: "require_teacher user = Inr user"
      by (auto simp: require_teacher_def)
    let ?d' = "d\<lparr>leave_requests :=
                 map (\<lambda>r. if l_request_id r = request_id then leave_update env update_data r
                           else r) (leave_requests d)\<rparr>"
    from a obtain n where n: "enrich_leave_response env ?d'
        (leave_update env update_data existing_request) = Inr n"
      using enrich_leave_response_ok by blast
    from a rt n
    have "update_leave_request_status env d request_id update_data user =
           (Inr \<lparr>lr_request = leave_update env update_data existing_request,
                 lr_student_name = n\<rparr>, ?d')"
      by (simp add: update_leave_request_status_def update_leave_request_status_try_def
          select_by_id_ok update_by_id_ok handle_def)
    then show ?thesis
      by (auto simp: leave_update_def)
  qed
  from denied allowed show ?thesis by blast
qed

text \<open>A student is refused; a master sets the approved request \<open>r1\<close> back to \<open>pending\<close>.\<close>

theorem update_leave_request_status_sets_any_status_witness:
  "tp_role (caller ''u1'' STUDENT) \<notin> set [TEACHER, ADMIN, MASTER]
   \<and> update_leave_request_status env0 db0 ''r1''
        \<lparr>lu_status = LeaveStatus_PENDING, lu_admin_remarks = None\<rparr> (caller ''u1'' STUDENT) =
        (Inl (HTTPException 403 [S ''Teacher access required'']), db0)
   \<and> tp_role (caller ''u5'' MASTER) \<in> set [TEACHER, ADMIN, MASTER]
   \<and> fails env0 Select ''leave_requests'' = None
   \<and> fails env0 Update ''leave_requests'' = None
   \<and> fails env0 Select ''students'' = None
   \<and> find (\<lambda>r. l_request_id r = ''r1'') (leave_requests db0) = Some (hd (leave_requests db0))
   \<and> l_status (hd (leave_requests db0)) = LeaveStatus_APPROVED
   \<and> map l_status (leave_requests (snd (update_leave_request_status env0 db0 ''r1''
        \<lparr>lu_status = LeaveStatus_PENDING, lu_admin_remarks = None\<rparr> (caller ''u5'' MASTER))))
      = [LeaveStatus_PENDING]"
proof -
  let ?u = "\<lparr>lu_status = LeaveStatus_PENDING, lu_admin_remarks = None\<rparr>"
  have h1: "tp_role (caller ''u1'' STUDENT) \<notin> set [TEACHER, ADMIN, MASTER]"
    by (simp add: caller_def)
  have h2: "tp_role (caller ''u5'' MASTER) \<in> set [TEACHER, ADMIN, MASTER]
        \<and> fails env0 Select ''leave_requests'' = None
        \<and> fails env0 Update ''leave_requests'' = None
        \<and> fails env0 Select ''students'' = None
        \<and> find (\<lambda>r. l_request_id r = ''r1'') (leave_requests db0) = Some (hd (leave_requests db0))"
    by (simp add: caller_def env0_def db0_def)
  have h3: "l_status (hd (leave_requests db0)) = LeaveStatus_APPROVED"
    by (simp add: db0_def)
  note t1 = update_leave_request_status_sets_any_status
    [of "caller ''u1'' STUDENT" env0 db0 "''r1''" ?u "hd (leave_requests db0)", THEN conjunct1, rule_format, OF h1]
  note t2 = update_leave_request_status_sets_any_status
    [of "caller ''u5'' MASTER" env0 db0 "''r1''" ?u "hd (leave_requests db0)", THEN conjunct2, rule_format, OF h2]
  from t2 have "map l_status (leave_requests (snd (update_leave_request_status env0 db0 ''r1''
        ?u (caller ''u5'' MASTER)))) = [LeaveStatus_PENDING]"
    by (auto simp: db0_def leave_update_def)
  with h1 h2 h3 t1 show ?thesis by simp
qed

section \<open>Registration\<close>



section \<open>Marks\<close>

text \<open>
  C5.  The store of \<open>db0\<close> already holds the mark of student \<open>s1\<close> in exam \<open>e1\<close>.  A bulk
  upload of one more mark for the same student and exam is accepted, reports one created
  record and no error, and leaves two marks for the pair: \<open>create_bulk_marks\<close> has no check
  for an existing record, unlike \<open>create_mark\<close>.
\<close>

theorem create_bulk_marks_duplicates_existing_mark:
  "map (\<lambda>m. (m_exam_id m, m_student_id m)) (marks db0) = [(''e1'', ''s1'')]
   \<and> create_bulk_marks env0 db0
        [\<lparr>mc_exam_id = ''e1'', mc_student_id = ''s1'', mc_marks_scored = 70, mc_remarks = None\<rparr>]
        (caller ''u5'' TEACHER) =
       (Inr \<lparr>br_message = ''Bulk marks processed.'', br_created_count = 1, br_errors = []\<rparr>,
        db0\<lparr>marks := marks db0 @
              [\<lparr>m_mark_id = ''n'', m_exam_id = ''e1'', m_student_id = ''s1'',
                m_marks_scored = 70, m_remarks = None, m_created_at = 1000\<rparr>]\<rparr>)"
  by (simp add: create_bulk_marks_def require_teacher_def select_by_id_def insert_many_def
      execute_def first_row_def eq_def mark_dict_def enumerate_eq_zip Let_def
      env0_def db0_def caller_def)

text \<open>
  What does hold of the two creating endpoints, when the reads of the store succeed:
  \<open>create_mark\<close> refuses a score above the exam's \<open>max_marks\<close> and refuses a second mark
  for an (exam, student) pair, both before any write; the loop of \<open>create_bulk_marks\<close>
  keeps for insertion only records of the first record's exam with a score within that
  exam's \<open>max_marks\<close>.
\<close>

lemma require_teacher_ok:
  "tp_role user \<in> set [TEACHER, ADMIN, MASTER] \<Longrightarrow> require_teacher user = Inr user"
  by (auto simp: require_teacher_def)

lemma create_mark_client_error:
  assumes "require_teacher user = Inr user"
    and "create_mark_try env d mark_data = (Inl (HTTPException code detail), d)"
  shows "create_mark env d mark_data user = (Inl (HTTPException code detail), d)"
  using assms by (simp add: create_mark_def handle_def reraise_def)

lemma create_mark_rejects_excess_marks:
  assumes "tp_role user \<in> set [TEACHER, ADMIN, MASTER]"
    and "fails env Select ''exams'' = None" and "fails env Select ''students'' = None"
    and "fails env Select ''marks'' = None"
    and "find (\<lambda>e. e_exam_id e = mc_exam_id mark_data) (exams d) = Some exam"
    and "mc_marks_scored mark_data > of_int (e_max_marks exam)"
  shows "\<exists>code detail. create_mark env d mark_data user = (Inl (HTTPException code detail), d)"
proof -
  note rt = require_teacher_ok [OF assms(1)]
  show ?thesis
  proof (cases "find (\<lambda>s. s_student_id s = mc_student_id mark_data) (students d)")
    case None
    have "create_mark_try env d mark_data = (Inl (HTTPException 404 [S ''Student not found'']), d)"
      unfolding create_mark_try_def by (simp add: select_by_id_ok assms None)
    from create_mark_client_error [OF rt this] show ?thesis by blast
  next
    case student: (Some student)
    show ?thesis
    proof (cases "find (matches [eq m_exam_id (mc_exam_id mark_data),
                          eq m_student_id (mc_student_id mark_data)]) (marks d)")
      case None
      have "create_mark_try env d mark_data =
              (Inl (HTTPException 400
                      [S ''Marks scored ('', N (mc_marks_scored mark_data),
                       S '') cannot be greater than max marks ('', I (e_max_marks exam),
                       S '')'']), d)"
        unfolding create_mark_try_def
        by (simp add: select_by_id_ok select_one_ok assms student None)
      from create_mark_client_error [OF rt this] show ?thesis by blast
    next
      case (Some existing)
      have "create_mark_try env d mark_data =
              (Inl (HTTPException 400 [S ''Marks for this student and exam already exist.'']), d)"
        unfolding create_mark_try_def
        by (simp add: select_by_id_ok select_one_ok assms student Some)
      from create_mark_client_error [OF rt this] show ?thesis by blast
    qed
  qed
qed

lemma create_mark_rejects_duplicate:
  assumes "tp_role user \<in> set [TEACHER, ADMIN, MASTER]"
    and "fails env Select ''exams'' = None" and "fails env Select ''students'' = None"
    and "fails env Select ''marks'' = None"
    and "existing \<in> set (marks d)" and "m_exam_id existing = mc_exam_id mark_data"
    and "m_student_id existing = mc_student_id mark_data"
  shows "\<exists>code detail. create_mark env d mark_data user = (Inl (HTTPException code detail), d)"
proof -
  note rt = require_teacher_ok [OF assms(1)]
  from assms(5-7) have "matches [eq m_exam_id (mc_exam_id mark_data),
                        eq m_student_id (mc_student_id mark_data)] existing"
    by (simp add: matches_def eq_def)
  with assms(5) obtain first where first: "find (matches [eq m_exam_id (mc_exam_id mark_data),
                        eq m_student_id (mc_student_id mark_data)]) (marks d) = Some first"
    by (cases "find (matches [eq m_exam_id (mc_exam_id mark_data),
                        eq m_student_id (mc_student_id mark_data)]) (marks d)")
       (auto simp: find_None_iff)
  show ?thesis
  proof (cases "find (\<lambda>e. e_exam_id e = mc_exam_id mark_data) (exams d)")
    case None
    have "create_mark_try env d mark_data = (Inl (HTTPException 404 [S ''Exam not found'']), d)"
      unfolding create_mark_try_def by (simp add: select_by_id_ok assms None)
    from create_mark_client_error [OF rt this] show ?thesis by blast
  next
    case exam: (Some exam)
    show ?thesis
    proof (cases "find (\<lambda>s. s_student_id s = mc_student_id mark_data) (students d)")
      case None
      have "create_mark_try env d mark_data = (Inl (HTTPException 404 [S ''Student not found'']), d)"
        unfolding create_mark_try_def by (simp add: select_by_id_ok assms exam None)
      from create_mark_client_error [OF rt this] show ?thesis by blast
    next
      case (Some student)
      have "create_mark_try env d mark_data =
              (Inl (HTTPException 400 [S ''Marks for this student and exam already exist.'']), d)"
        unfolding create_mark_try_def
        by (simp add: select_by_id_ok select_one_ok assms(1-4) exam Some first)
      from create_mark_client_error [OF rt this] show ?thesis by blast
    qed
  qed
qed

lemma bulk_loop_respects_max_marks:
  assumes "bulk_loop first_exam_id max_marks i marks_list errors records = (errors', records')"
    and "\<forall>r \<in> set records. mc_exam_id r = first_exam_id \<and> mc_marks_scored r \<le> of_int max_marks"
  shows "\<forall>r \<in> set records'. mc_exam_id r = first_exam_id \<and> mc_marks_scored r \<le> of_int max_marks"
  using assms
proof (induction first_exam_id max_marks i marks_list errors records rule: bulk_loop.induct)
  case (1 first_exam_id max_marks i errors records_to_insert)
  then show ?case by simp
next
  case (2 first_exam_id max_marks i mark_data rest errors records_to_insert)
  show ?case
  proof (cases "mc_exam_id mark_data \<noteq> first_exam_id")
    case True
    from "2.prems"(1) True
    have "bulk_loop first_exam_id max_marks (Suc i) rest
            (errors @ [\<lparr>be_index = i, be_student_id = None,
               be_error = [S ''All marks in a bulk upload must be for the same exam.'']\<rparr>])
            records_to_insert = (errors', records')"
      by simp
    from "2.IH"(1) [OF True this "2.prems"(2)] show ?thesis .
  next
    case same: False
    show ?thesis
    proof (cases "mc_marks_scored mark_data > of_int max_marks")
      case True
      from "2.prems"(1) same True
      have "bulk_loop first_exam_id max_marks (Suc i) rest
              (errors @ [\<lparr>be_index = i, be_student_id = Some (mc_student_id mark_data),
                 be_error = [S ''Marks ('', N (mc_marks_scored mark_data),
                             S '') exceed max marks ('', I max_marks, S '').'']\<rparr>])
              records_to_insert = (errors', records')"
        by simp
      from "2.IH"(2) [OF same True this "2.prems"(2)] show ?thesis .
    next
      case False
      from "2.prems"(1) same False
      have run: "bulk_loop first_exam_id max_marks (Suc i) rest errors
              (records_to_insert @ [mark_data]) = (errors', records')"
        by simp
      from "2.prems"(2) same False
      have "\<forall>r \<in> set (records_to_insert @ [mark_data]).
              mc_exam_id r = first_exam_id \<and> mc_marks_scored r \<le> of_int max_marks"
        by (simp add: not_less)
      from "2.IH"(3) [OF same False run this] show ?thesis .
    qed
  qed
qed

section \<open>The fees a parent sees\<close>

lemma matches_Nil: "matches [] = (\<lambda>r. True)"
  by (simp add: fun_eq_iff matches_def)

lemma matches_single: "matches [eq column v] = (\<lambda>r. column r = v)"
  by (simp add: fun_eq_iff matches_def eq_def)

lemma enrich_fee_response_ok:
  "fails env Select ''students'' = None \<Longrightarrow> \<exists>enriched. enrich_fee_response env d fee = Inr enriched"
  by (simp add: enrich_fee_response_def select_by_id_ok)

lemma fees_loop_parent:
  assumes "tp_role current_user = PARENT" and "ids \<noteq> []"
    and "fails env Select ''students'' = None"
  shows "\<exists>response_list.
           fees_loop env d current_user (Some ids) fees_list = Inr response_list
           \<and> map fr_fee response_list = filter (\<lambda>fee. f_student_id fee \<in> set ids) fees_list"
proof (induction fees_list)
  case Nil
  show ?case by simp
next
  case (Cons fee rest)
  then obtain rs where rs: "fees_loop env d current_user (Some ids) rest = Inr rs"
    and m: "map fr_fee rs = filter (\<lambda>fee. f_student_id fee \<in> set ids) rest"
    by blast
  show ?case
  proof (cases "f_student_id fee \<in> set ids")
    case False
    with assms rs m show ?thesis by simp
  next
    case True
    from assms(3) obtain en where en: "enrich_fee_response env d fee = Inr en"
      using enrich_fee_response_ok by blast
    have "fees_loop env d current_user (Some ids) (fee # rest) =
            Inr (make_FeeResponse fee en # rs)"
      using assms True rs en by simp
    moreover have "map fr_fee (make_FeeResponse fee en # rs) =
            filter (\<lambda>fee. f_student_id fee \<in> set ids) (fee # rest)"
      using True m by (simp add: make_FeeResponse_def)
    ultimately show ?thesis by blast
  qed
qed

text \<open>
  C6.  A caller with role parent who has a parent profile and at least one linked child,
  asking for the fees list with no \<open>student_id\<close> (and no other filter), receives, when the
  store answers, the fee records whose \<open>student_id\<close> is among the linked children, each once
  and in descending order of \<open>due_date\<close>: as a set, exactly the stored fee records of the
  children and no record of any other student.
\<close>

theorem get_fees_parent_sees_children_fees:
  assumes "tp_role current_user = PARENT"
    and "fails env Select ''parents'' = None"
    and "fails env Select ''parent_student'' = None"
    and "fails env Select ''fees'' = None"
    and "fails env Select ''students'' = None"
    and "find (\<lambda>p. p_user_id p = Some (tp_sub current_user)) (parents d) = Some parent"
    and "children =
           map ps_student_id
             (filter (\<lambda>link. ps_parent_id link = p_parent_id parent) (parent_student d))"
    and "children \<noteq> []"
    and "\<not> given student_id" and "status = None" and "\<not> given academic_year"
  shows "\<exists>response_list.
           get_fees env d student_id status academic_year current_user = Inr response_list
           \<and> map fr_fee response_list =
               filter (\<lambda>fee. f_student_id fee \<in> set children) (rev (sort_key f_due_date (fees d)))
           \<and> set (map fr_fee response_list) =
               {fee \<in> set (fees d). f_student_id fee \<in> set children}"
proof -
  let ?sorted = "rev (sort_key f_due_date (fees d))"
  from fees_loop_parent [OF assms(1) assms(8) assms(5), of d ?sorted]
  obtain rs where rs: "fees_loop env d current_user (Some children) ?sorted = Inr rs"
    and m: "map fr_fee rs = filter (\<lambda>fee. f_student_id fee \<in> set children) ?sorted"
    by blast
  have links: "select_all env ''parent_student'' (parent_student d)
                 [eq ps_parent_id (p_parent_id parent)] no_order =
               Inr (filter (\<lambda>link. ps_parent_id link = p_parent_id parent) (parent_student d))"
    using assms(3) by (simp add: select_all_ok matches_single no_order_def)
  have fetch: "get_fees_from env d current_user status academic_year [] (Some children) = Inr rs"
    using assms(4,10,11) rs
    by (simp add: get_fees_from_def get_fees_try_def select_all_ok matches_Nil order_by_def
        catch_all_def)
  have "get_fees env d student_id status academic_year current_user = Inr rs"
    unfolding get_fees_def
    using assms(1,2,6,8,9) links fetch
    by (simp add: select_one_ok matches_single assms(7) [symmetric])
  moreover have "set (map fr_fee rs) = {fee \<in> set (fees d). f_student_id fee \<in> set children}"
    unfolding m by auto
  ultimately show ?thesis using m by blast
qed

text \<open>The parent \<open>u7\<close> with the children \<open>s1\<close> and \<open>s2\<close>; the fee \<open>f3\<close> belongs to \<open>s3\<close>.\<close>

theorem get_fees_parent_sees_children_fees_witness:
  "tp_role (caller ''u7'' PARENT) = PARENT
   \<and> fails env0 Select ''parents'' = None \<and> fails env0 Select ''parent_student'' = None
   \<and> fails env0 Select ''fees'' = None \<and> fails env0 Select ''students'' = None
   \<and> find (\<lambda>p. p_user_id p = Some (tp_sub (caller ''u7'' PARENT))) (parents db0) =
        Some \<lparr>p_parent_id = ''p1'', p_user_id = Some ''u7''\<rparr>
   \<and> map ps_student_id (filter (\<lambda>link. ps_parent_id link = ''p1'') (parent_student db0)) =
        [''s1'', ''s2'']
   \<and> map (f_fee_id \<circ> fr_fee) (projr (get_fees env0 db0 None None None (caller ''u7'' PARENT))) =
        [''f1'', ''f2'']
   \<and> map (\<lambda>fee. (f_fee_id fee, f_student_id fee)) (fees db0) =
        [(''f1'', ''s1''), (''f2'', ''s2''), (''f3'', ''s3'')]"
proof -
  let ?cu = "caller ''u7'' PARENT"
  let ?parent = "\<lparr>p_parent_id = ''p1'', p_user_id = Some ''u7''\<rparr>"
  have h1: "tp_role ?cu = PARENT" by (simp add: caller_def)
  have h2: "fails env0 Select ''parents'' = None" by (simp add: env0_def)
  have h3: "fails env0 Select ''parent_student'' = None" by (simp add: env0_def)
  have h4: "fails env0 Select ''fees'' = None" by (simp add: env0_def)
  have h5: "fails env0 Select ''students'' = None" by (simp add: env0_def)
  have h6: "find (\<lambda>p. p_user_id p = Some (tp_sub ?cu)) (parents db0) = Some ?parent"
    by (simp add: caller_def db0_def)
  have h7: "[''s1'', ''s2''] =
           map ps_student_id
             (filter (\<lambda>link. ps_parent_id link = p_parent_id ?parent) (parent_student db0))"
    by (simp add: db0_def)
  have h8: "[''s1'', ''s2''] \<noteq> ([] :: string list)" by simp
  have h9: "\<not> given None" by (simp add: given_def)
  have s: "rev (sort_key f_due_date (fees db0)) = [fees db0 ! 0, fees db0 ! 2, fees db0 ! 1]"
    by (simp add: db0_def)
  from get_fees_parent_sees_children_fees [OF h1 h2 h3 h4 h5 h6 h7 h8 h9 refl h9]
  obtain rs where rs: "get_fees env0 db0 None None None ?cu = Inr rs"
    and m: "map fr_fee rs =
              filter (\<lambda>fee. f_student_id fee \<in> set [''s1'', ''s2''])
                (rev (sort_key f_due_date (fees db0)))"
    by blast
  from m have "map (f_fee_id \<circ> fr_fee) rs = [''f1'', ''f2'']"
    unfolding s map_map [symmetric] by (simp add: db0_def)
  with rs have "map (f_fee_id \<circ> fr_fee) (projr (get_fees env0 db0 None None None ?cu)) =
        [''f1'', ''f2'']"
    by simp
  moreover have "map (\<lambda>fee. (f_fee_id fee, f_student_id fee)) (fees db0) =
        [(''f1'', ''s1''), (''f2'', ''s2''), (''f3'', ''s3'')]"
    by (simp add: db0_def)
  ultimately show ?thesis using h1 h2 h3 h4 h5 h6 h7 by simp
qed

section \<open>What the client sees when the store fails\<close>




section \<open>A parent without a profile asks for a mark\<close>

text \<open>
  C10.  In \<open>get_mark\<close>, for an existing mark and a caller whose role is parent and who has
  no row in \<open>parents\<close>, the authorization section reads \<open>parent_profile["parent_id"]\<close> on
  \<open>None\<close>; the \<open>TypeError\<close> reaches the generic handler, and the response is the 500 with
  that error's text, not a 403.  The reads of \<open>marks\<close> and \<open>parents\<close> are taken to succeed.
\<close>

theorem get_mark_parent_without_profile_is_500:
  assumes "tp_role current_user = PARENT"
    and "fails env Select ''marks'' = None"
    and "fails env Select ''parents'' = None"
    and "find (\<lambda>m. m_mark_id m = mark_id) (marks d) = Some mark"
    and "find (\<lambda>p. p_user_id p = Some (tp_sub current_user)) (parents d) = None"
  shows "get_mark env d mark_id current_user =
           Inl (HTTPException 500
                  [S ''Failed to retrieve mark: '', S ''NoneType object is not subscriptable''])"
proof -
  have s: "get_mark_student_check env d mark current_user = Inr ()"
    using assms(1) by (simp add: get_mark_student_check_def)
  have p: "get_mark_parent_check env d mark current_user =
             Inl (TypeError [S ''NoneType object is not subscriptable''])"
    using assms(1,3,5)
    by (simp add: get_mark_parent_check_def select_one_ok matches_single)
  show ?thesis
    using assms(2,4) s p
    by (simp add: get_mark_def get_mark_try_def select_by_id_ok handle_read_def reraise_def)
qed

text \<open>The caller \<open>u9\<close> has the role parent and no parent row; the mark \<open>m1\<close> exists.\<close>

theorem get_mark_parent_without_profile_is_500_witness:
  "tp_role (caller ''u9'' PARENT) = PARENT
   \<and> fails env0 Select ''marks'' = None \<and> fails env0 Select ''parents'' = None
   \<and> find (\<lambda>m. m_mark_id m = ''m1'') (marks db0) = Some (hd (marks db0))
   \<and> find (\<lambda>p. p_user_id p = Some (tp_sub (caller ''u9'' PARENT))) (parents db0) = None
   \<and> get_mark env0 db0 ''m1'' (caller ''u9'' PARENT) =
        Inl (HTTPException 500
               [S ''Failed to retrieve mark: '', S ''NoneType object is not subscriptable''])"
proof -
  have h1: "tp_role (caller ''u9'' PARENT) = PARENT" by (simp add: caller_def)
  have h2: "fails env0 Select ''marks'' = None" by (simp add: env0_def)
  have h3: "fails env0 Select ''parents'' = None" by (simp add: env0_def)
  have h4: "find (\<lambda>m. m_mark_id m = ''m1'') (marks db0) = Some (hd (marks db0))"
    by (simp add: db0_def)
  have h5: "find (\<lambda>p. p_user_id p = Some (tp_sub (caller ''u9'' PARENT))) (parents db0) = None"
    by (simp add: db0_def caller_def)
  from get_mark_parent_without_profile_is_500 [OF h1 h2 h3 h4 h5] h1 h2 h3 h4 h5
  show ?thesis by simp
qed

section \<open>Tokens\<close>






section \<open>Attendance\<close>

text \<open>
  A call of \<open>mark_attendance\<close> leaves the attendance table as it was, or appends one row
  for the student and date of the request, and the latter only when the table had no row
  for that pair.
\<close>

lemma snd_handle: "snd (handle detail r) = snd r"
  by (cases r) (auto simp: handle_def split: sum.splits)

lemma mark_attendance_try_table:
  "attendance (snd (mark_attendance_try env d attendance_data)) = attendance d
   \<or> (filter (\<lambda>r. a_student_id r = ac_student_id attendance_data
                   \<and> a_date r = ac_date attendance_data) (attendance d) = []
      \<and> (\<exists>row. a_student_id row = ac_student_id attendance_data
                \<and> a_date row = ac_date attendance_data
                \<and> attendance (snd (mark_attendance_try env d attendance_data)) =
                    attendance d @ [row]))"
proof (cases "fails env Select ''attendance''")
  case (Some e)
  then show ?thesis by (simp add: mark_attendance_try_def execute_def)
next
  case read: None
  show ?thesis
  proof (cases "filter (\<lambda>r. a_student_id r = ac_student_id attendance_data
                   \<and> a_date r = ac_date attendance_data) (attendance d) = []")
    case False
    with read show ?thesis by (simp add: mark_attendance_try_def execute_def eq_def)
  next
    case free: True
    show ?thesis
    proof (cases "fails env Insert ''attendance''")
      case (Some e)
      with read free show ?thesis
        by (simp add: mark_attendance_try_def execute_def eq_def insert_one_def)
    next
      case None
      let ?row = "\<lparr>a_attendance_id = gen_id env 0,
                    a_student_id = ac_student_id attendance_data,
                    a_date = ac_date attendance_data,
                    a_status = ac_status attendance_data,
                    a_remarks = ac_remarks attendance_data,
                    a_created_at = now env\<rparr>"
      have "attendance (snd (mark_attendance_try env d attendance_data)) = attendance d @ [?row]"
        using read free None
        by (simp add: mark_attendance_try_def execute_def eq_def insert_one_ok Let_def
            split: sum.split option.split)
      with free show ?thesis by auto
    qed
  qed
qed

lemma mark_attendance_table:
  "attendance (snd (mark_attendance env d attendance_data user)) = attendance d
   \<or> (filter (\<lambda>r. a_student_id r = ac_student_id attendance_data
                   \<and> a_date r = ac_date attendance_data) (attendance d) = []
      \<and> (\<exists>row. a_student_id row = ac_student_id attendance_data
                \<and> a_date row = ac_date attendance_data
                \<and> attendance (snd (mark_attendance env d attendance_data user)) =
                    attendance d @ [row]))"
proof (cases "require_teacher user")
  case (Inl e)
  then show ?thesis by (simp add: mark_attendance_def)
next
  case (Inr current_user)
  then have "snd (mark_attendance env d attendance_data user) =
               snd (mark_attendance_try env d attendance_data)"
    by (simp add: mark_attendance_def snd_handle)
  with mark_attendance_try_table [of env d attendance_data] show ?thesis by simp
qed

lemma mark_attendance_keeps_at_most_one:
  assumes "\<forall>student_id date. attendance_count d student_id date \<le> 1"
  shows "attendance_count (snd (mark_attendance env d attendance_data user)) student_id date \<le> 1"
proof -
  from mark_attendance_table [of env d attendance_data user]
  consider
    (same) "attendance (snd (mark_attendance env d attendance_data user)) = attendance d"
  | (added) row where
      "filter (\<lambda>r. a_student_id r = ac_student_id attendance_data
                   \<and> a_date r = ac_date attendance_data) (attendance d) = []"
      "a_student_id row = ac_student_id attendance_data"
      "a_date row = ac_date attendance_data"
      "attendance (snd (mark_attendance env d attendance_data user)) = attendance d @ [row]"
    by blast
  then show ?thesis
  proof cases
    case same
    with assms show ?thesis by (simp add: attendance_count_def)
  next
    case added
    show ?thesis
    proof (cases "student_id = ac_student_id attendance_data \<and> date = ac_date attendance_data")
      case True
      with added show ?thesis by (simp add: attendance_count_def)
    next
      case False
      with added have "attendance_count (snd (mark_attendance env d attendance_data user))
                         student_id date = attendance_count d student_id date"
        by (auto simp: attendance_count_def)
      with assms show ?thesis by simp
    qed
  qed
qed

lemma mark_attendance_seq_keeps_at_most_one:
  "\<forall>student_id date. attendance_count d student_id date \<le> 1 \<Longrightarrow>
   attendance_count (mark_attendance_seq d calls) student_id date \<le> 1"
proof (induction calls arbitrary: d)
  case Nil
  then show ?case by simp
next
  case (Cons call calls)
  obtain env attendance_data user where call: "call = (env, attendance_data, user)"
    by (cases call) auto
  have "\<forall>student_id date.
          attendance_count (snd (mark_attendance env d attendance_data user)) student_id date \<le> 1"
    using mark_attendance_keeps_at_most_one [OF Cons.prems] by blast
  from Cons.IH [OF this] call show ?case by simp
qed

text \<open>
  C8.  When a record with the student and date of the request is already stored, a
  teacher's, admin's or master's \<open>mark_attendance\<close> is rejected (status 400,
  \<open>Attendance already marked for this date\<close>) and the store is unchanged, the read of the
  attendance table being taken to succeed.  And from a store with at most one attendance
  record per student and date, any sequence of \<open>mark_attendance\<close> calls, whoever calls and
  whatever fails in the store, leads to a store with at most one record per student and date.
\<close>

theorem mark_attendance_once_per_student_and_date:
  "(tp_role user \<in> set [TEACHER, ADMIN, MASTER]
      \<and> fails env Select ''attendance'' = None
      \<and> existing \<in> set (attendance d)
      \<and> a_student_id existing = ac_student_id attendance_data
      \<and> a_date existing = ac_date attendance_data \<longrightarrow>
    mark_attendance env d attendance_data user =
      (Inl (HTTPException 400 [S ''Attendance already marked for this date'']), d))
   \<and> ((\<forall>student_id date. attendance_count d student_id date \<le> 1) \<longrightarrow>
      (\<forall>student_id date. attendance_count (mark_attendance_seq d calls) student_id date \<le> 1))"
proof -
  have rejected: "mark_attendance env d attendance_data user =
      (Inl (HTTPException 400 [S ''Attendance already marked for this date'']), d)"
    if h: "tp_role user \<in> set [TEACHER, ADMIN, MASTER]
      \<and> fails env Select ''attendance'' = None
      \<and> existing \<in> set (attendance d)
      \<and> a_student_id existing = ac_student_id attendance_data
      \<and> a_date existing = ac_date attendance_data"
  proof -
    from h have rt: "require_teacher user = Inr user"
      by (auto simp: require_teacher_def)
    from h have "filter (\<lambda>r. eq a_student_id (ac_student_id attendance_data) r
                          \<and> eq a_date (ac_date attendance_data) r) (attendance d) \<noteq> []"
      by (auto simp: filter_empty_conv eq_def)
    with h rt show ?thesis
      by (simp add: mark_attendance_def mark_attendance_try_def execute_def handle_def
          reraise_def)
  qed
  from rejected mark_attendance_seq_keeps_at_most_one [of d calls] show ?thesis by blast
qed

text \<open>
  The stored record of \<open>s1\<close> on day 5 blocks a second one; two requests in a row for \<open>s2\<close>
  on day 6 leave one record, the first.
\<close>

theorem mark_attendance_once_per_student_and_date_witness:
  "tp_role (caller ''u5'' TEACHER) \<in> set [TEACHER, ADMIN, MASTER]
   \<and> fails env0 Select ''attendance'' = None
   \<and> hd (attendance db0) \<in> set (attendance db0)
   \<and> a_student_id (hd (attendance db0)) = ''s1'' \<and> a_date (hd (attendance db0)) = 5
   \<and> mark_attendance env0 db0
        \<lparr>ac_student_id = ''s1'', ac_date = 5, ac_status = ABSENT, ac_remarks = None\<rparr>
        (caller ''u5'' TEACHER) =
       (Inl (HTTPException 400 [S ''Attendance already marked for this date'']), db0)
   \<and> (\<forall>student_id date. attendance_count db0 student_id date \<le> 1)
   \<and> (\<forall>student_id date.
        attendance_count
          (mark_attendance_seq db0
             [(env0, \<lparr>ac_student_id = ''s2'', ac_date = 6, ac_status = LATE, ac_remarks = None\<rparr>,
               caller ''u5'' TEACHER),
              (env0, \<lparr>ac_student_id = ''s2'', ac_date = 6, ac_status = PRESENT, ac_remarks = None\<rparr>,
               caller ''u6'' ADMIN)]) student_id date \<le> 1)
   \<and> map (\<lambda>r. (a_student_id r, a_date r, a_status r))
        (attendance
          (mark_attendance_seq db0
             [(env0, \<lparr>ac_student_id = ''s2'', ac_date = 6, ac_status = LATE, ac_remarks = None\<rparr>,
               caller ''u5'' TEACHER),
              (env0, \<lparr>ac_student_id = ''s2'', ac_date = 6, ac_status = PRESENT, ac_remarks = None\<rparr>,
               caller ''u6'' ADMIN)])) =
       [(''s1'', 5, PRESENT), (''s2'', 6, LATE)]"
proof -
  let ?a = "\<lparr>ac_student_id = ''s1'', ac_date = 5, ac_status = ABSENT, ac_remarks = None\<rparr>"
  let ?calls = "[(env0, \<lparr>ac_student_id = ''s2'', ac_date = 6, ac_status = LATE, ac_remarks = None\<rparr>,
               caller ''u5'' TEACHER),
              (env0, \<lparr>ac_student_id = ''s2'', ac_date = 6, ac_status = PRESENT, ac_remarks = None\<rparr>,
               caller ''u6'' ADMIN)]"
  note t = mark_attendance_once_per_student_and_date [where user = "caller ''u5'' TEACHER"
      and env = env0 and d = db0 and existing = "hd (attendance db0)"
      and attendance_data = "?a" and calls = "?calls"]
  have h1: "tp_role (caller ''u5'' TEACHER) \<in> set [TEACHER, ADMIN, MASTER]
      \<and> fails env0 Select ''attendance'' = None
      \<and> hd (attendance db0) \<in> set (attendance db0)
      \<and> a_student_id (hd (attendance db0)) = ac_student_id ?a
      \<and> a_date (hd (attendance db0)) = ac_date ?a"
    by (simp add: caller_def env0_def db0_def)
  have h2: "\<forall>student_id date. attendance_count db0 student_id date \<le> 1"
    by (simp add: attendance_count_def db0_def)
  note t1 = t [THEN conjunct1, rule_format, OF h1]
  note t2 = t [THEN conjunct2, THEN mp, OF h2]
  have run: "map (\<lambda>r. (a_student_id r, a_date r, a_status r))
        (attendance (mark_attendance_seq db0 ?calls)) =
       [(''s1'', 5, PRESENT), (''s2'', 6, LATE)]"
    by (simp add: mark_attendance_def mark_attendance_try_def require_teacher_def execute_def
        insert_one_def select_by_id_def first_row_def eq_def handle_def Let_def
        caller_def env0_def db0_def)
  from h1 h2 t1 t2 run show ?thesis by simp
qed

end
